theory Spec2Isabelle
  imports Complex_Main
begin

section \<open>JavaScript values and the string operations the source uses\<close>

text \<open>
  The provider's \<^verbatim>\<open>user_metadata\<close> is typed \<^verbatim>\<open>{[key: string]: any}\<close>, so the
  operands of the \<^verbatim>\<open>||\<close> chain in \<^verbatim>\<open>getUserDisplayName\<close> are arbitrary JSON
  values. \<open>JUndefined\<close> is what a missing property or a short-circuited \<^verbatim>\<open>?.\<close>
  yields; \<open>JObject\<close> stands for every array and object (always truthy).
  Strings are \<open>char list\<close>, a \<open>char\<close> standing for the UTF-16 code unit of the
  same number: these are the strings whose code units lie below U+0100. The text typed
  into the CLI panel, which the source hands to \<^verbatim>\<open>trim()\<close>, is modelled with all its
  code units (see the panel's section).
\<close>

datatype jsval = JUndefined | JNull | JBool bool | JNum int | JStr string | JObject

text \<open>ToBoolean of ECMAScript, as \<^verbatim>\<open>||\<close> and \<^verbatim>\<open>!\<close> apply it.\<close>

fun truthy :: "jsval \<Rightarrow> bool" where
  "truthy JUndefined = False"
| "truthy JNull = False"
| "truthy (JBool b) = b"
| "truthy (JNum n) = (n \<noteq> 0)"
| "truthy (JStr s) = (s \<noteq> [])"
| "truthy JObject = True"

text \<open>\<^verbatim>\<open>a || b\<close>: the left operand when it is truthy, the right one otherwise.\<close>

definition js_or :: "jsval \<Rightarrow> jsval \<Rightarrow> jsval" where
  "js_or a b = (if truthy a then a else b)"

text \<open>\<^verbatim>\<open>!!x\<close> on a nullable object reference.\<close>

fun non_null :: "'a option \<Rightarrow> bool" where
  "non_null None = False"
| "non_null (Some x) = True"

text \<open>
  \<^verbatim>\<open>s.split(sep)\<close> for a one-character separator: the pieces between the
  occurrences of the separator; the empty string gives one empty piece.
\<close>

fun split :: "char \<Rightarrow> string \<Rightarrow> string list" where
  "split sep [] = [[]]"
| "split sep (c # cs) =
     (if c = sep then [] # split sep cs
      else (case split sep cs of
              [] \<Rightarrow> [[c]]
            | p # ps \<Rightarrow> (c # p) # ps))"

text \<open>\<^verbatim>\<open>arr[0]\<close>: \<^verbatim>\<open>undefined\<close> on an empty array.\<close>

fun index0 :: "string list \<Rightarrow> jsval" where
  "index0 [] = JUndefined"
| "index0 (p # ps) = JStr p"

text \<open>
  \<^verbatim>\<open>email.split('@')[0]\<close> where the context needs a string (the \<^verbatim>\<open>name\<close> of a
  demo user). \<open>split\<close> never returns the empty array, so the first branch is dead.
\<close>

definition split_at_0 :: "string \<Rightarrow> string" where
  "split_at_0 email = (case split (CHR ''@'') email of [] \<Rightarrow> [] | p # ps \<Rightarrow> p)"

section \<open>The data of AuthContext.tsx\<close>

text \<open>The fields of the provider's \<^verbatim>\<open>User\<close> that the source reads.\<close>

record User =
  user_id :: string
  user_email :: "string option"
  user_metadata :: "(string \<rightharpoonup> jsval) option"

record Session =
  access_token :: string
  session_user :: User

text \<open>\<^verbatim>\<open>interface DemoUser { name: string; email: string }\<close>\<close>

record DemoUser =
  du_name :: string
  du_email :: string

text \<open>A value thrown by a provider call: an \<^verbatim>\<open>Error\<close> with its message, or anything else.\<close>

datatype thrown = ErrorInstance string | NonError

datatype oauth_provider = google | github

text \<open>The calls made on \<^verbatim>\<open>supabase.auth\<close>, with the arguments the source passes.\<close>

datatype provider_call =
    GetSession
  | OnAuthStateChange
  | SignInWithPassword string string
  | SignUp string string "(string \<times> string) list"
  | SignInWithOAuth oauth_provider string
  | SignOut

text \<open>
  The four \<^verbatim>\<open>useState\<close> slots of \<^verbatim>\<open>AuthProvider\<close>, and the environment it acts on:
  \<^verbatim>\<open>localStorage\<close> (keys to stored text), \<^verbatim>\<open>window.location.origin\<close>, and the log of
  the calls made on the provider so far.
\<close>

record world =
  user :: "User option"
  session :: "Session option"
  isLoading :: bool
  demoUser :: "DemoUser option"
  localStorage :: "string \<rightharpoonup> string"
  location_origin :: string
  provider_calls :: "provider_call list"

text \<open>The state of a freshly constructed \<^verbatim>\<open>AuthProvider\<close> (source lines 41-44).\<close>

definition initial_world :: "(string \<rightharpoonup> string) \<Rightarrow> string \<Rightarrow> world" where
  "initial_world store origin =
     \<lparr>user = None, session = None, isLoading = True, demoUser = None,
      localStorage = store, location_origin = origin, provider_calls = []\<rparr>"

section \<open>getUserDisplayName and the derived values\<close>

text \<open>\<^verbatim>\<open>user.user_metadata?.key\<close>\<close>

definition metadata_field :: "User \<Rightarrow> string \<Rightarrow> jsval" where
  "metadata_field u k =
     (case user_metadata u of
        None \<Rightarrow> JUndefined
      | Some m \<Rightarrow> (case m k of None \<Rightarrow> JUndefined | Some v \<Rightarrow> v))"

text \<open>\<^verbatim>\<open>user.email?.split('@')[0]\<close>\<close>

definition email_piece :: "User \<Rightarrow> jsval" where
  "email_piece u =
     (case user_email u of
        None \<Rightarrow> JUndefined
      | Some e \<Rightarrow> index0 (split (CHR ''@'') e))"

text \<open>
  Source lines 148-158. A non-null \<^verbatim>\<open>demoUser\<close> is an object, hence truthy; the
  \<^verbatim>\<open>||\<close> chain associates to the left.
\<close>

definition getUserDisplayName :: "world \<Rightarrow> jsval" where
  "getUserDisplayName w =
     (case demoUser w of
        Some d \<Rightarrow> JStr (du_name d)
      | None \<Rightarrow>
          (case user w of
             None \<Rightarrow> JStr []
           | Some u \<Rightarrow>
               js_or (js_or (js_or (js_or (metadata_field u ''full_name'')
                                          (metadata_field u ''name''))
                                   (metadata_field u ''preferred_username''))
                            (email_piece u))
                     (JStr ''User'')))"

text \<open>\<^verbatim>\<open>isLoggedIn: !!user || !!demoUser\<close>\<close>

definition isLoggedIn :: "world \<Rightarrow> bool" where
  "isLoggedIn w = (non_null (user w) \<or> non_null (demoUser w))"

text \<open>\<^verbatim>\<open>isDemoMode: !isSupabaseConfigured\<close>\<close>

definition isDemoMode :: "bool \<Rightarrow> bool" where
  "isDemoMode isSupabaseConfigured = (\<not> isSupabaseConfigured)"

section \<open>Platform functions: case mapping, whitespace, JSON.stringify\<close>

text \<open>
  \<^verbatim>\<open>toUpperCase\<close> on the ASCII letters, every other character left as it is: its only
  argument in the source is the first letter of \<^verbatim>\<open>'google'\<close> or \<^verbatim>\<open>'github'\<close>.
  \<^verbatim>\<open>toLowerCase\<close> on the code units below U+0100: the letters A to Z, and U+00C0 to
  U+00DE without the multiplication sign U+00D7, move up by 32; no other code unit of
  that range has a lower-case mapping.
\<close>

definition toUpperCase_char :: "char \<Rightarrow> char" where
  "toUpperCase_char c =
     (let n = (of_char c :: nat) in if 97 \<le> n \<and> n \<le> 122 then char_of (n - 32) else c)"

definition toLowerCase_char :: "char \<Rightarrow> char" where
  "toLowerCase_char c =
     (let n = (of_char c :: nat) in
      if (65 \<le> n \<and> n \<le> 90) \<or> (192 \<le> n \<and> n \<le> 222 \<and> n \<noteq> 215) then char_of (n + 32)
      else c)"

definition toUpperCase :: "string \<Rightarrow> string" where
  "toUpperCase s = map toUpperCase_char s"

definition toLowerCase :: "string \<Rightarrow> string" where
  "toLowerCase s = map toLowerCase_char s"

text \<open>\<^verbatim>\<open>s.charAt(0)\<close>: the first character as a string, or the empty string.\<close>

definition charAt0 :: "string \<Rightarrow> string" where
  "charAt0 s = take 1 s"

text \<open>\<^verbatim>\<open>s.slice(1)\<close>\<close>

definition slice1 :: "string \<Rightarrow> string" where
  "slice1 s = drop 1 s"

text \<open>
  The code units that \<^verbatim>\<open>trim()\<close> strips and \<^verbatim>\<open>\s\<close> matches, the WhiteSpace and
  LineTerminator productions of ECMAScript: tab, line feed, vertical tab, form feed,
  carriage return, space, no-break space U+00A0, U+1680, U+2000 to U+200A, the line
  and paragraph separators U+2028 and U+2029, U+202F, U+205F, U+3000 and the byte
  order mark U+FEFF. All lie in the basic plane, so each is one code unit.
\<close>

definition js_whitespace :: "nat \<Rightarrow> bool" where
  "js_whitespace u =
     (u \<in> set [0x09, 0x0A, 0x0B, 0x0C, 0x0D, 0x20, 0xA0, 0x1680, 0x2028, 0x2029, 0x202F,
               0x205F, 0x3000, 0xFEFF]
      \<or> (0x2000 \<le> u \<and> u \<le> 0x200A))"

text \<open>\<^verbatim>\<open>s.trim()\<close> on a sequence of code units.\<close>

definition trim :: "nat list \<Rightarrow> nat list" where
  "trim s = rev (dropWhile js_whitespace (rev (dropWhile js_whitespace s)))"

text \<open>\<^verbatim>\<open>s.replace(/\s/g, '')\<close>\<close>

definition remove_whitespace :: "string \<Rightarrow> string" where
  "remove_whitespace s = filter (\<lambda>c. \<not> js_whitespace (of_char c)) s"

text \<open>
  \<^verbatim>\<open>JSON.stringify\<close> of a string (QuoteJSONString): the quotation mark and the
  backslash are escaped, the control characters below U+0020 are written with their
  short escapes or as \<^verbatim>\<open>\u00xx\<close>.
\<close>

definition hex_digit :: "nat \<Rightarrow> char" where
  "hex_digit n = (if n < 10 then char_of (48 + n) else char_of (87 + n))"

definition json_escape :: "char \<Rightarrow> string" where
  "json_escape c =
     (if c = CHR 0x22 then [CHR 0x5C, CHR 0x22]
      else if c = CHR 0x5C then [CHR 0x5C, CHR 0x5C]
      else if c = CHR 0x08 then [CHR 0x5C, CHR ''b'']
      else if c = CHR 0x09 then [CHR 0x5C, CHR ''t'']
      else if c = CHR 0x0A then [CHR 0x5C, CHR ''n'']
      else if c = CHR 0x0C then [CHR 0x5C, CHR ''f'']
      else if c = CHR 0x0D then [CHR 0x5C, CHR ''r'']
      else if (of_char c :: nat) < 0x20 then
        [CHR 0x5C, CHR ''u'', CHR ''0'', CHR ''0'',
         hex_digit (of_char c div 16), hex_digit (of_char c mod 16)]
      else [c])"

definition json_quote :: "string \<Rightarrow> string" where
  "json_quote s = CHR 0x22 # concat (map json_escape s) @ [CHR 0x22]"

text \<open>
  \<^verbatim>\<open>JSON.stringify(demo)\<close> for the object literal \<^verbatim>\<open>{ name: ..., email: ... }\<close>: the
  two properties in insertion order, without white space.
\<close>

definition JSON_stringify :: "DemoUser \<Rightarrow> string" where
  "JSON_stringify demo =
     ''{'' @ json_quote ''name'' @ '':'' @ json_quote (du_name demo) @ '','' @
     json_quote ''email'' @ '':'' @ json_quote (du_email demo) @ ''}''"

text \<open>
  What \<^verbatim>\<open>JSON.parse(stored)\<close> does with the text found in storage: it throws a
  SyntaxError, or returns a value that \<^verbatim>\<open>setDemoUser\<close> stores (null, or an object read
  as a \<^verbatim>\<open>DemoUser\<close>). The parser is an argument of \<open>mount\<close>.
\<close>

datatype parse_result = SyntaxError | Parsed "DemoUser option"

section \<open>The operations of AuthProvider\<close>

text \<open>
  \<^verbatim>\<open>isSupabaseConfigured\<close> is a constant of the module \<^verbatim>\<open>@/lib/supabase\<close>; every
  operation takes it as its first argument. An operation that awaits the provider takes
  the \<^verbatim>\<open>error\<close> field of the provider's answer (\<open>None\<close>: no error) and returns the
  thrown value or unit, with the new world.
\<close>

text \<open>Source line 81: \<^verbatim>\<open>{ name: email.split('@')[0], email }\<close>\<close>

definition login_demo :: "string \<Rightarrow> DemoUser" where
  "login_demo email = \<lparr>du_name = split_at_0 email, du_email = email\<rparr>"

text \<open>Source line 96: \<^verbatim>\<open>{ name, email }\<close>\<close>

definition register_demo :: "string \<Rightarrow> string \<Rightarrow> DemoUser" where
  "register_demo name email = \<lparr>du_name = name, du_email = email\<rparr>"

fun provider_string :: "oauth_provider \<Rightarrow> string" where
  "provider_string google = ''google''"
| "provider_string github = ''github''"

text \<open>Source line 117.\<close>

definition oauth_demo :: "oauth_provider \<Rightarrow> DemoUser" where
  "oauth_demo provider =
     \<lparr>du_name = toUpperCase (charAt0 (provider_string provider)) @ slice1 (provider_string provider)
                 @ '' User'',
      du_email = ''demo@'' @ provider_string provider @ ''.com''\<rparr>"

text \<open>Source line 142.\<close>

definition demoLogin_demo :: "string \<Rightarrow> DemoUser" where
  "demoLogin_demo name =
     \<lparr>du_name = name, du_email = remove_whitespace (toLowerCase name) @ ''@demo.com''\<rparr>"

text \<open>\<^verbatim>\<open>setDemoUser(demo); localStorage.setItem('demo_user', JSON.stringify(demo))\<close>\<close>

definition store_demo :: "DemoUser \<Rightarrow> world \<Rightarrow> world" where
  "store_demo demo w =
     w\<lparr>demoUser := Some demo,
       localStorage := (localStorage w)(''demo_user'' \<mapsto> JSON_stringify demo)\<rparr>"

text \<open>\<^verbatim>\<open>if (error) throw error\<close>\<close>

fun throw_if :: "thrown option \<Rightarrow> thrown + unit" where
  "throw_if None = Inr ()"
| "throw_if (Some e) = Inl e"

definition call_provider :: "provider_call \<Rightarrow> world \<Rightarrow> world" where
  "call_provider c w = w\<lparr>provider_calls := provider_calls w @ [c]\<rparr>"

text \<open>Source lines 78-91.\<close>

definition login :: "bool \<Rightarrow> string \<Rightarrow> string \<Rightarrow> thrown option \<Rightarrow> world \<Rightarrow> (thrown + unit) \<times> world" where
  "login isSupabaseConfigured email password error w =
     (if \<not> isSupabaseConfigured then (Inr (), store_demo (login_demo email) w)
      else (throw_if error, call_provider (SignInWithPassword email password) w))"

text \<open>Source lines 93-112.\<close>

definition register :: "bool \<Rightarrow> string \<Rightarrow> string \<Rightarrow> string \<Rightarrow> thrown option \<Rightarrow> world \<Rightarrow> (thrown + unit) \<times> world" where
  "register isSupabaseConfigured name email password error w =
     (if \<not> isSupabaseConfigured then (Inr (), store_demo (register_demo name email) w)
      else (throw_if error,
            call_provider (SignUp email password [(''full_name'', name), (''name'', name)]) w))"

text \<open>Source lines 114-129.\<close>

definition loginWithOAuth :: "bool \<Rightarrow> oauth_provider \<Rightarrow> thrown option \<Rightarrow> world \<Rightarrow> (thrown + unit) \<times> world" where
  "loginWithOAuth isSupabaseConfigured provider error w =
     (if \<not> isSupabaseConfigured then (Inr (), store_demo (oauth_demo provider) w)
      else (throw_if error, call_provider (SignInWithOAuth provider (location_origin w)) w))"

text \<open>Source lines 131-139.\<close>

definition logout :: "bool \<Rightarrow> thrown option \<Rightarrow> world \<Rightarrow> (thrown + unit) \<times> world" where
  "logout isSupabaseConfigured error w =
     (if \<not> isSupabaseConfigured then
        (Inr (), w\<lparr>demoUser := None, localStorage := (localStorage w)(''demo_user'' := None)\<rparr>)
      else (throw_if error, call_provider SignOut w))"

text \<open>Source lines 141-145: no test of \<^verbatim>\<open>isSupabaseConfigured\<close>.\<close>

definition demoLogin :: "string \<Rightarrow> world \<Rightarrow> world" where
  "demoLogin name w = store_demo (demoLogin_demo name) w"

text \<open>
  The effect of source lines 46-76, up to the first suspension. In demo mode the stored
  text is read (\<^verbatim>\<open>if (stored)\<close>: present and not empty) and parsed; a SyntaxError leaves
  the effect before \<^verbatim>\<open>setIsLoading(false)\<close>. Otherwise the session is requested and the
  subscription is made; their answers arrive as the two callbacks below.
\<close>

definition mount :: "bool \<Rightarrow> (string \<Rightarrow> parse_result) \<Rightarrow> world \<Rightarrow> world" where
  "mount isSupabaseConfigured JSON_parse w =
     (if \<not> isSupabaseConfigured then
        (case localStorage w ''demo_user'' of
           None \<Rightarrow> w\<lparr>isLoading := False\<rparr>
         | Some stored \<Rightarrow>
             (if stored = [] then w\<lparr>isLoading := False\<rparr>
              else (case JSON_parse stored of
                      SyntaxError \<Rightarrow> w
                    | Parsed v \<Rightarrow> w\<lparr>demoUser := v, isLoading := False\<rparr>)))
      else call_provider OnAuthStateChange (call_provider GetSession w))"

text \<open>\<^verbatim>\<open>session?.user ?? null\<close>\<close>

definition user_of :: "Session option \<Rightarrow> User option" where
  "user_of s = map_option session_user s"

text \<open>Source lines 58-62: the session request resolves.\<close>

definition getSession_then :: "Session option \<Rightarrow> world \<Rightarrow> world" where
  "getSession_then s w = w\<lparr>session := s, user := user_of s, isLoading := False\<rparr>"

text \<open>Source lines 62-64: the session request is rejected.\<close>

definition getSession_catch :: "world \<Rightarrow> world" where
  "getSession_catch w = w\<lparr>isLoading := False\<rparr>"

text \<open>Source lines 68-72: the subscription's callback.\<close>

definition onAuthStateChange :: "Session option \<Rightarrow> world \<Rightarrow> world" where
  "onAuthStateChange s w = w\<lparr>session := s, user := user_of s, isLoading := False\<rparr>"

section \<open>Sequences of operations\<close>

text \<open>
  The calls a consumer of the context can make that await the provider, each with the
  provider's answer, and the other events that change the state: the effect on mount,
  the answers to the session request, a session-change notification, and
  \<^verbatim>\<open>demoLogin\<close>.
\<close>

datatype auth_call =
    Login string string
  | Register string string string
  | LoginWithOAuth oauth_provider
  | Logout

datatype event =
    Mount
  | GetSessionResolved "Session option"
  | GetSessionRejected
  | AuthStateChange "Session option"
  | Call auth_call "thrown option"
  | DemoLogin string

fun perform :: "bool \<Rightarrow> auth_call \<Rightarrow> thrown option \<Rightarrow> world \<Rightarrow> (thrown + unit) \<times> world" where
  "perform cfg (Login email password) error w = login cfg email password error w"
| "perform cfg (Register name email password) error w = register cfg name email password error w"
| "perform cfg (LoginWithOAuth provider) error w = loginWithOAuth cfg provider error w"
| "perform cfg Logout error w = logout cfg error w"

text \<open>
  In demo mode the effect returns before it requests the session or subscribes (source
  lines 47-55), so no answer and no notification is delivered there.
\<close>

fun step :: "bool \<Rightarrow> (string \<Rightarrow> parse_result) \<Rightarrow> event \<Rightarrow> world \<Rightarrow> world" where
  "step cfg JSON_parse Mount w = mount cfg JSON_parse w"
| "step cfg JSON_parse (GetSessionResolved s) w = (if cfg then getSession_then s w else w)"
| "step cfg JSON_parse GetSessionRejected w = (if cfg then getSession_catch w else w)"
| "step cfg JSON_parse (AuthStateChange s) w = (if cfg then onAuthStateChange s w else w)"
| "step cfg JSON_parse (Call c error) w = snd (perform cfg c error w)"
| "step cfg JSON_parse (DemoLogin name) w = demoLogin name w"

fun run :: "bool \<Rightarrow> (string \<Rightarrow> parse_result) \<Rightarrow> event list \<Rightarrow> world \<Rightarrow> world" where
  "run cfg JSON_parse [] w = w"
| "run cfg JSON_parse (ev # evs) w = run cfg JSON_parse evs (step cfg JSON_parse ev w)"

text \<open>The calls alone, as a consumer makes them one after the other.\<close>

fun run_calls :: "bool \<Rightarrow> (auth_call \<times> thrown option) list \<Rightarrow> world \<Rightarrow> world" where
  "run_calls cfg [] w = w"
| "run_calls cfg ((c, error) # cs) w = run_calls cfg cs (snd (perform cfg c error w))"

text \<open>The identity a call synthesizes in demo mode (source lines 81, 96, 117); none for logout.\<close>

fun synthesized :: "auth_call \<Rightarrow> DemoUser option" where
  "synthesized (Login email password) = Some (login_demo email)"
| "synthesized (Register name email password) = Some (register_demo name email)"
| "synthesized (LoginWithOAuth provider) = Some (oauth_demo provider)"
| "synthesized Logout = None"

section \<open>The precedence of the display name, as the specification words it\<close>

text \<open>
  The four values the specification lists after the demo identity, for the provider
  user if there is one: the metadata's full name, name and preferred username, and
  the local part of the email.
\<close>

definition candidates :: "User \<Rightarrow> jsval list" where
  "candidates u =
     [metadata_field u ''full_name'', metadata_field u ''name'',
      metadata_field u ''preferred_username'', email_piece u]"

text \<open>The first usable (truthy) value of a list, or the fallback.\<close>

fun first_usable :: "jsval list \<Rightarrow> jsval \<Rightarrow> jsval" where
  "first_usable [] fallback = fallback"
| "first_usable (v # vs) fallback = (if truthy v then v else first_usable vs fallback)"

text \<open>
  ``DemoIdentity name, else provider metadata full-name, else provider metadata name,
  else provider metadata preferred-username, else the local-part of the email, else
  the literal fallback "User"'': without a provider user none of the four is there.
\<close>

definition spec_display_name :: "world \<Rightarrow> jsval" where
  "spec_display_name w =
     (case demoUser w of
        Some d \<Rightarrow> JStr (du_name d)
      | None \<Rightarrow>
          first_usable (case user w of None \<Rightarrow> [] | Some u \<Rightarrow> candidates u) (JStr ''User''))"

section \<open>AuthModal.tsx: handleRegister\<close>

record registerForm =
  rf_name :: string
  rf_email :: string
  rf_password :: string
  rf_confirmPassword :: string

text \<open>
  The modal's \<^verbatim>\<open>error\<close> and \<^verbatim>\<open>isLoading\<close> slots, the toasts shown, and how often
  the \<^verbatim>\<open>onAuthSuccess\<close> and \<^verbatim>\<open>onClose\<close> callbacks were called.
\<close>

record modal =
  modal_error :: "string option"
  modal_isLoading :: bool
  toasts :: "(string \<times> string) list"
  onAuthSuccess_calls :: nat
  onClose_calls :: nat

text \<open>\<^verbatim>\<open>err instanceof Error ? err.message : fallback\<close>\<close>

fun error_message :: "thrown \<Rightarrow> string \<Rightarrow> string" where
  "error_message (ErrorInstance msg) fallback = msg"
| "error_message NonError fallback = fallback"

text \<open>Source lines 56-74 of AuthModal.tsx, on the modal's state and the world.\<close>

definition handleRegister ::
  "bool \<Rightarrow> registerForm \<Rightarrow> thrown option \<Rightarrow> modal \<times> world \<Rightarrow> modal \<times> world" where
  "handleRegister cfg form error mw =
     (let m = (fst mw)\<lparr>modal_error := None\<rparr>; w = snd mw in
      if rf_password form \<noteq> rf_confirmPassword form then
        (m\<lparr>modal_error := Some ''Passwords don't match!''\<rparr>, w)
      else
        (case register cfg (rf_name form) (rf_email form) (rf_password form) error w of
           (Inr ok, w') \<Rightarrow>
             (m\<lparr>modal_isLoading := False,
                toasts := toasts m @ [(''Account created!'', ''Welcome to AgenticCLI.'')],
                onAuthSuccess_calls := Suc (onAuthSuccess_calls m),
                onClose_calls := Suc (onClose_calls m)\<rparr>, w')
         | (Inl err, w') \<Rightarrow>
             (m\<lparr>modal_isLoading := False,
                modal_error := Some (error_message err ''Registration failed'')\<rparr>, w')))"

section \<open>CLIPanel.tsx\<close>

text \<open>
  The panel's strings are sequences of UTF-16 code units, as natural numbers: the
  input is whatever the user typed, and the guard of \<^verbatim>\<open>handleSubmit\<close> depends on
  white space beyond U+00FF. The literals of the source are ASCII; \<open>code_units\<close>
  gives their code units.
\<close>

definition code_units :: "string \<Rightarrow> nat list" where
  "code_units s = map of_char s"

datatype message_type = user_message | agent_message

record Message =
  message_type :: message_type
  content :: "nat list"

definition initialMessages :: "Message list" where
  "initialMessages =
     [\<lparr>message_type = agent_message,
       content = code_units ''Welcome to Agentic CLI. How can I assist you today?''\<rparr>]"

definition sampleResponses :: "string list" where
  "sampleResponses =
     [''Analyzing your request... I'll help you with that.'',
      ''Running `npm install` and setting up your project structure...'',
      ''I've identified the issue. Let me fix that for you.'',
      ''Creating a new React component with TypeScript types...'',
      ''Optimizing your code for better performance...'']"

text \<open>
  The panel's three state slots, and the delays (in milliseconds) of the timers set
  and not yet fired.
\<close>

record panel =
  messages :: "Message list"
  panel_input :: "nat list"
  isTyping :: bool
  timers :: "real list"

definition initial_panel :: panel where
  "initial_panel = \<lparr>messages = initialMessages, panel_input = [], isTyping = False, timers = []\<rparr>"

text \<open>
  The numbers of the source are doubles: a product or a sum is the exact result rounded
  to the nearest double. The rounding is the argument \<open>fl\<close> of the two functions
  below, and \<open>r\<close> is the value \<^verbatim>\<open>Math.random()\<close> returns, a double that is at least 0
  and less than 1, hence at most \<open>1 - 1 / 2 ^ 53\<close>.
\<close>

text \<open>Source lines 460-475, up to \<^verbatim>\<open>setTimeout\<close> and its delay.\<close>

definition handleSubmit :: "(real \<Rightarrow> real) \<Rightarrow> real \<Rightarrow> panel \<Rightarrow> panel" where
  "handleSubmit fl r s =
     (if trim (panel_input s) = [] \<or> isTyping s then s
      else s\<lparr>messages := messages s @ [\<lparr>message_type = user_message, content = panel_input s\<rparr>],
             panel_input := [],
             isTyping := True,
             timers := timers s @ [fl (1000 + fl (r * 1000))]\<rparr>)"

text \<open>
  Source lines 470-474, the timer's callback, with the index
  \<^verbatim>\<open>Math.floor(Math.random() * sampleResponses.length)\<close>. The index is in range for
  every double \<open>r\<close> below 1 (lemma \<open>random_index\<close>).
\<close>

definition timer_callback :: "(real \<Rightarrow> real) \<Rightarrow> real \<Rightarrow> panel \<Rightarrow> panel" where
  "timer_callback fl r s =
     s\<lparr>messages := messages s @
          [\<lparr>message_type = agent_message,
            content =
              code_units (sampleResponses ! nat \<lfloor>fl (r * real (length sampleResponses))\<rfloor>)\<rparr>],
       isTyping := False,
       timers := tl (timers s)\<rparr>"

text \<open>The events that are a call of \<^verbatim>\<open>demoLogin\<close>.\<close>

fun is_demoLogin :: "event \<Rightarrow> bool" where
  "is_demoLogin (DemoLogin name) = True"
| "is_demoLogin ev = False"

section \<open>Facts about the string and value operations\<close>

lemma split_takeWhile: "\<exists>ps. split sep s = takeWhile (\<lambda>c. c \<noteq> sep) s # ps"
  by (induction s) (auto split: list.splits)

lemma split_at_0_takeWhile: "split_at_0 email = takeWhile (\<lambda>c. c \<noteq> CHR ''@'') email"
proof -
  obtain ps where "split (CHR ''@'') email = takeWhile (\<lambda>c. c \<noteq> CHR ''@'') email # ps"
    using split_takeWhile by blast
  then show ?thesis by (simp add: split_at_0_def)
qed

lemma js_or_chain:
  "js_or (js_or (js_or (js_or a b) c) d) e = first_usable [a, b, c, d] e"
  by (simp add: js_or_def)

lemma first_usable_cases:
  "first_usable vs fb = fb \<and> list_all (\<lambda>v. \<not> truthy v) vs \<or>
   first_usable vs fb \<in> set vs \<and> truthy (first_usable vs fb)"
  by (induction vs) auto

lemma display_name_provider_user:
  "demoUser w = None \<Longrightarrow> user w = Some u \<Longrightarrow>
   getUserDisplayName w = first_usable (candidates u) (JStr ''User'')"
  by (simp add: getUserDisplayName_def candidates_def js_or_chain)

section \<open>The display name\<close>

text \<open>
  Claim C1, as the specification states it: in every session state the display name is
  the one the precedence list gives, down to the literal "User". It fails in the state
  with no identity at all: the code returns the empty string there (source line 150),
  where the list ends in "User".
\<close>

theorem display_name_no_identity_counterexample:
  "getUserDisplayName (initial_world (map_of []) []) = JStr [] \<and>
   spec_display_name (initial_world (map_of []) []) = JStr ''User''"
  by (simp add: getUserDisplayName_def spec_display_name_def initial_world_def)

text \<open>
  Claim C1, amended: when a demo identity or a provider user is present,
  \<open>getUserDisplayName\<close> follows the precedence list (the first value that is usable,
  which for \<^verbatim>\<open>||\<close> means truthy); with no identity it returns the empty string. With a
  demo identity named "Ada" the result is "Ada" whatever the provider user is; with the
  metadata \<^verbatim>\<open>{full_name: "Grace Hopper"}\<close> it is "Grace Hopper"; with only
  \<^verbatim>\<open>{name: "ghopper"}\<close> it is "ghopper"; with no such field and the email
  \<^verbatim>\<open>grace@x.com\<close> it is "grace".
\<close>

theorem display_name_precedence:
  "getUserDisplayName w =
     (if demoUser w = None \<and> user w = None then JStr [] else spec_display_name w) \<and>
   getUserDisplayName (w\<lparr>demoUser := Some \<lparr>du_name = ''Ada'', du_email = e\<rparr>\<rparr>) = JStr ''Ada'' \<and>
   getUserDisplayName
     (w\<lparr>demoUser := None,
        user := Some (u\<lparr>user_metadata := Some (map_of [(''full_name'', JStr ''Grace Hopper'')])\<rparr>)\<rparr>)
     = JStr ''Grace Hopper'' \<and>
   getUserDisplayName
     (w\<lparr>demoUser := None,
        user := Some (u\<lparr>user_metadata := Some (map_of [(''name'', JStr ''ghopper'')])\<rparr>)\<rparr>)
     = JStr ''ghopper'' \<and>
   getUserDisplayName
     (w\<lparr>demoUser := None,
        user := Some (u\<lparr>user_metadata := Some (map_of []),
                        user_email := Some ''grace@x.com''\<rparr>)\<rparr>)
     = JStr ''grace''"
proof (intro conjI)
  show "getUserDisplayName w =
     (if demoUser w = None \<and> user w = None then JStr [] else spec_display_name w)"
    by (simp add: getUserDisplayName_def spec_display_name_def candidates_def js_or_chain
             split: option.splits)
qed (simp_all add: getUserDisplayName_def metadata_field_def email_piece_def js_or_def)

text \<open>
  Claim C10: with neither a provider user nor a demo identity the result is the empty
  string, not "User". With a provider user, no demo identity and none of the four
  values usable, the result is the fallback "User"; and whenever the result is "User",
  either a demo identity carries that name, or a provider user is present (and no demo
  identity) whose four values are all unusable or hold "User" themselves.
\<close>

theorem display_name_fallback:
  "(demoUser w = None \<and> user w = None \<longrightarrow> getUserDisplayName w = JStr []) \<and>
   (demoUser w = None \<and> user w = Some u \<and> list_all (\<lambda>v. \<not> truthy v) (candidates u)
      \<longrightarrow> getUserDisplayName w = JStr ''User'') \<and>
   (getUserDisplayName w = JStr ''User'' \<longrightarrow>
      (\<exists>d. demoUser w = Some d \<and> du_name d = ''User'') \<or>
      (\<exists>u. demoUser w = None \<and> user w = Some u \<and>
           (list_all (\<lambda>v. \<not> truthy v) (candidates u) \<or> JStr ''User'' \<in> set (candidates u))))"
proof (intro conjI impI)
  assume "demoUser w = None \<and> user w = None"
  then show "getUserDisplayName w = JStr []"
    by (simp add: getUserDisplayName_def)
next
  assume a: "demoUser w = None \<and> user w = Some u \<and> list_all (\<lambda>v. \<not> truthy v) (candidates u)"
  then have "first_usable (candidates u) (JStr ''User'') = JStr ''User''"
    using first_usable_cases [of "candidates u" "JStr ''User''"] by (auto simp: list_all_iff)
  with a show "getUserDisplayName w = JStr ''User''"
    by (simp add: display_name_provider_user)
next
  assume r: "getUserDisplayName w = JStr ''User''"
  show "(\<exists>d. demoUser w = Some d \<and> du_name d = ''User'') \<or>
      (\<exists>u. demoUser w = None \<and> user w = Some u \<and>
           (list_all (\<lambda>v. \<not> truthy v) (candidates u) \<or> JStr ''User'' \<in> set (candidates u)))"
  proof (cases "demoUser w")
    case (Some d)
    with r show ?thesis by (simp add: getUserDisplayName_def)
  next
    case None
    show ?thesis
    proof (cases "user w")
      case no_user: None
      with None r show ?thesis by (simp add: getUserDisplayName_def)
    next
      case (Some u')
      with None r have "first_usable (candidates u') (JStr ''User'') = JStr ''User''"
        by (simp add: display_name_provider_user)
      then have "list_all (\<lambda>v. \<not> truthy v) (candidates u') \<or> JStr ''User'' \<in> set (candidates u')"
        using first_usable_cases [of "candidates u'" "JStr ''User''"] by auto
      with None Some show ?thesis by simp
    qed
  qed
qed

theorem display_name_fallback_witness:
  "getUserDisplayName (initial_world (map_of []) []) = JStr [] \<and>
   getUserDisplayName
     ((initial_world (map_of []) [])
        \<lparr>user := Some \<lparr>user_id = ''u1'', user_email = None, user_metadata = Some (map_of [])\<rparr>\<rparr>)
     = JStr ''User''"
  using display_name_fallback
      [of "initial_world (map_of []) []"
          "\<lparr>user_id = ''u1'', user_email = None, user_metadata = Some (map_of [])\<rparr>"]
    display_name_fallback
      [of "(initial_world (map_of []) [])
             \<lparr>user := Some \<lparr>user_id = ''u1'', user_email = None, user_metadata = Some (map_of [])\<rparr>\<rparr>"
          "\<lparr>user_id = ''u1'', user_email = None, user_metadata = Some (map_of [])\<rparr>"]
  by (simp add: initial_world_def candidates_def metadata_field_def email_piece_def)

section \<open>The stored text determines the identity\<close>

text \<open>
  The escapes of \<open>json_escape\<close> form a prefix code, so a quoted string can be read
  back from the text that starts with it, and \<open>JSON_stringify\<close> is injective: two
  demo identities with the same stored text are equal.
\<close>

lemma of_char_hex_digit: "n < 16 \<Longrightarrow> (of_char (hex_digit n) :: nat) = (if n < 10 then 48 + n else 87 + n)"
  by (simp add: hex_digit_def)

lemma hex_digit_inject:
  assumes "m < 16" "n < 16" "hex_digit m = hex_digit n"
  shows "m = n"
proof -
  from assms(3) have "(of_char (hex_digit m) :: nat) = of_char (hex_digit n)" by simp
  with assms(1,2) show ?thesis
    by (simp add: of_char_hex_digit split: if_splits)
qed

lemma hex_pair_inject:
  assumes "hex_digit (m div 16) = hex_digit (n div 16)"
    and "hex_digit (m mod 16) = hex_digit (n mod 16)" and "m < 32" and "n < 32"
  shows "m = n"
proof -
  from assms(3,4) have "m div 16 < 16" "n div 16 < 16" by auto
  then have d: "m div 16 = n div 16" using assms(1) by (rule hex_digit_inject)
  have "m mod 16 < 16" "n mod 16 < 16" by auto
  then have "m mod 16 = n mod 16" using assms(2) by (rule hex_digit_inject)
  with d show "m = n" by (metis div_mult_mod_eq)
qed


lemma json_escape_cases:
  "(json_escape d = [d] \<and> d \<noteq> CHR 0x5C \<and> d \<noteq> CHR 0x22) \<or>
   (\<exists>y. json_escape d = [CHR 0x5C, y] \<and> y \<noteq> CHR ''u'' \<and>
        d = (if y = CHR 0x22 then CHR 0x22 else if y = CHR 0x5C then CHR 0x5C
             else if y = CHR ''b'' then CHR 0x08 else if y = CHR ''t'' then CHR 0x09
             else if y = CHR ''n'' then CHR 0x0A else if y = CHR ''f'' then CHR 0x0C else CHR 0x0D)) \<or>
   (json_escape d = [CHR 0x5C, CHR ''u'', CHR ''0'', CHR ''0'',
         hex_digit (of_char d div 16), hex_digit (of_char d mod 16)] \<and> (of_char d :: nat) < 32)"
  by (simp add: json_escape_def)

lemma json_escape_prefix:
  assumes "json_escape c @ x = json_escape c' @ x'"
  shows "c = c' \<and> x = x'"
  using assms json_escape_cases [of c] json_escape_cases [of c']
    hex_pair_inject [of "of_char c" "of_char c'"]
  by (elim disjE exE conjE) (auto split: if_splits)


lemma json_escape_hd: "\<exists>y ys. json_escape c = y # ys \<and> y \<noteq> CHR 0x22"
  by (simp add: json_escape_def)

lemma escaped_inject:
  "concat (map json_escape s) @ CHR 0x22 # r = concat (map json_escape s') @ CHR 0x22 # r'
   \<Longrightarrow> s = s' \<and> r = r'"
proof (induction s arbitrary: s')
  case Nil
  show ?case
  proof (cases s')
    case Nil
    with Nil.prems show ?thesis by simp
  next
    case (Cons c cs)
    obtain y ys where "json_escape c = y # ys" "y \<noteq> CHR 0x22"
      using json_escape_hd by blast
    with Nil.prems Cons show ?thesis by simp
  qed
next
  case (Cons c cs)
  show ?case
  proof (cases s')
    case Nil
    obtain y ys where "json_escape c = y # ys" "y \<noteq> CHR 0x22"
      using json_escape_hd by blast
    with Cons.prems Nil show ?thesis by simp
  next
    case (Cons c' cs')
    with Cons.prems have
      "json_escape c @ (concat (map json_escape cs) @ CHR 0x22 # r) =
       json_escape c' @ (concat (map json_escape cs') @ CHR 0x22 # r')"
      by simp
    then have "c = c'" and
      "concat (map json_escape cs) @ CHR 0x22 # r = concat (map json_escape cs') @ CHR 0x22 # r'"
      using json_escape_prefix by blast+
    with Cons.IH [of cs'] Cons show ?thesis by simp
  qed
qed

lemma json_quote_inject: "json_quote s @ r = json_quote s' @ r' \<Longrightarrow> s = s' \<and> r = r'"
  using escaped_inject [of s r s' r'] by (simp add: json_quote_def)

lemma json_quote_name: "json_quote ''name'' = CHR 0x22 # ''name'' @ [CHR 0x22]"
  by (simp add: json_quote_def json_escape_def)

lemma json_quote_email: "json_quote ''email'' = CHR 0x22 # ''email'' @ [CHR 0x22]"
  by (simp add: json_quote_def json_escape_def)

lemma JSON_stringify_inject:
  assumes "JSON_stringify d = JSON_stringify d'"
  shows "d = d'"
proof -
  from assms have
    "json_quote (du_name d) @ ('','' @ json_quote ''email'' @ '':'' @ json_quote (du_email d) @ ''}'') =
     json_quote (du_name d') @ ('','' @ json_quote ''email'' @ '':'' @ json_quote (du_email d') @ ''}'')"
    by (simp add: JSON_stringify_def json_quote_name)
  then have n: "du_name d = du_name d'" and
    "'','' @ json_quote ''email'' @ '':'' @ json_quote (du_email d) @ ''}'' =
     '','' @ json_quote ''email'' @ '':'' @ json_quote (du_email d') @ ''}''"
    using json_quote_inject by blast+
  then have "json_quote (du_email d) @ ''}'' = json_quote (du_email d') @ ''}''"
    by (simp add: json_quote_email)
  then have "du_email d = du_email d'"
    using json_quote_inject by blast
  with n show ?thesis by simp
qed

section \<open>The operations in demo mode\<close>

lemma oauth_demo_google:
  "oauth_demo google = \<lparr>du_name = ''Google User'', du_email = ''demo@google.com''\<rparr>"
  by code_simp

lemma oauth_demo_github:
  "oauth_demo github = \<lparr>du_name = ''Github User'', du_email = ''demo@github.com''\<rparr>"
  by code_simp

lemma perform_demo:
  "snd (perform False c error w) =
     w\<lparr>demoUser := synthesized c,
       localStorage := (localStorage w)(''demo_user'' := map_option JSON_stringify (synthesized c))\<rparr>"
  by (cases c) (simp_all add: login_def register_def loginWithOAuth_def logout_def store_demo_def)

lemma perform_demo_succeeds: "fst (perform False c error w) = Inr ()"
  by (cases c) (simp_all add: login_def register_def loginWithOAuth_def logout_def)

text \<open>
  Claim C7: in demo mode \<open>login\<close> succeeds for every email and password; the demo
  identity it creates has the part of the email before the first \<^verbatim>\<open>@\<close> as its name and
  the email as its email, and on return it is in the demo slot and, serialized, in
  local storage under \<^verbatim>\<open>demo_user\<close>.
\<close>

theorem login_demo_mode:
  "login False email password error w =
     (Inr (),
      w\<lparr>demoUser := Some \<lparr>du_name = takeWhile (\<lambda>c. c \<noteq> CHR ''@'') email, du_email = email\<rparr>,
        localStorage := (localStorage w)
          (''demo_user'' \<mapsto>
             JSON_stringify \<lparr>du_name = takeWhile (\<lambda>c. c \<noteq> CHR ''@'') email, du_email = email\<rparr>)\<rparr>)"
  by (simp add: login_def store_demo_def login_demo_def split_at_0_takeWhile)

text \<open>
  Claim C8: in demo mode \<open>loginWithOAuth\<close> creates and persists the demo identity
  "Google User" with the email \<^verbatim>\<open>demo@google.com\<close> for google, and "Github User" with
  \<^verbatim>\<open>demo@github.com\<close> for github.
\<close>

theorem loginWithOAuth_demo_mode:
  "loginWithOAuth False google error w =
     (Inr (),
      w\<lparr>demoUser := Some \<lparr>du_name = ''Google User'', du_email = ''demo@google.com''\<rparr>,
        localStorage := (localStorage w)
          (''demo_user'' \<mapsto>
             JSON_stringify \<lparr>du_name = ''Google User'', du_email = ''demo@google.com''\<rparr>)\<rparr>) \<and>
   loginWithOAuth False github error w =
     (Inr (),
      w\<lparr>demoUser := Some \<lparr>du_name = ''Github User'', du_email = ''demo@github.com''\<rparr>,
        localStorage := (localStorage w)
          (''demo_user'' \<mapsto>
             JSON_stringify \<lparr>du_name = ''Github User'', du_email = ''demo@github.com''\<rparr>)\<rparr>)"
  by (simp add: loginWithOAuth_def store_demo_def oauth_demo_google oauth_demo_github)

text \<open>
  Claim C3: after every non-empty sequence of login, register, loginWithOAuth and
  logout calls in demo mode, local storage differs from the storage before the sequence
  at most under the one key \<^verbatim>\<open>demo_user\<close>; what is stored there is the serialized
  identity that the most recent call synthesized (which the text determines, by
  \<open>JSON_stringify_inject\<close>), and nothing after a logout. The demo slot holds the same
  identity.
\<close>

theorem demo_storage_tracks_last_call:
  "cs \<noteq> [] \<Longrightarrow>
   localStorage (run_calls False cs w) =
     (localStorage w)(''demo_user'' := map_option JSON_stringify (synthesized (fst (last cs)))) \<and>
   demoUser (run_calls False cs w) = synthesized (fst (last cs))"
proof (induction cs arbitrary: w)
  case Nil
  then show ?case by simp
next
  case (Cons a cs)
  obtain c error where a: "a = (c, error)" by (cases a)
  show ?case
  proof (cases "cs = []")
    case True
    with a show ?thesis by (simp add: perform_demo)
  next
    case False
    with Cons.IH [of "snd (perform False c error w)"] a show ?thesis
      by (auto simp add: perform_demo)
  qed
qed

theorem demo_storage_tracks_last_call_witness:
  "[(Login ''ada@x.com'' ''pw'', None), (Logout, None), (LoginWithOAuth google, None)] \<noteq> [] \<and>
   localStorage
     (run_calls False [(Login ''ada@x.com'' ''pw'', None), (Logout, None), (LoginWithOAuth google, None)]
        (initial_world (map_of []) [])) ''demo_user''
     = Some (JSON_stringify \<lparr>du_name = ''Google User'', du_email = ''demo@google.com''\<rparr>) \<and>
   demoUser
     (run_calls False [(Login ''ada@x.com'' ''pw'', None), (Logout, None), (LoginWithOAuth google, None)]
        (initial_world (map_of []) []))
     = Some \<lparr>du_name = ''Google User'', du_email = ''demo@google.com''\<rparr>"
  using demo_storage_tracks_last_call
      [of "[(Login ''ada@x.com'' ''pw'', None), (Logout, None), (LoginWithOAuth google, None)]"
          "initial_world (map_of []) []"]
  by (simp add: oauth_demo_google)

section \<open>The operations in configured mode\<close>

text \<open>
  Claim C4: in configured mode \<open>login\<close> throws the error the provider's password
  sign-in reports and returns normally when there is none; in both cases the only
  change is the call made on the provider: user, session, demo user and local storage
  are as before.
\<close>

theorem login_configured_no_mutation:
  "fst (login True email password (Some e) w) = Inl e \<and>
   fst (login True email password None w) = Inr () \<and>
   snd (login True email password error w) =
     w\<lparr>provider_calls := provider_calls w @ [SignInWithPassword email password]\<rparr> \<and>
   user (snd (login True email password error w)) = user w \<and>
   session (snd (login True email password error w)) = session w \<and>
   demoUser (snd (login True email password error w)) = demoUser w \<and>
   localStorage (snd (login True email password error w)) = localStorage w"
  by (simp add: login_def call_provider_def)

text \<open>
  Claim C5: when the password and its confirmation differ, \<open>handleRegister\<close> sets the
  form's error to "Passwords don't match!" and returns: in demo and in configured mode
  the world is unchanged, so no call is made on the provider, nothing is written to
  storage and the session state is as before.
\<close>

theorem handleRegister_mismatch:
  "rf_password form \<noteq> rf_confirmPassword form \<Longrightarrow>
   handleRegister cfg form error (m, w) =
     (m\<lparr>modal_error := Some ''Passwords don't match!''\<rparr>, w)"
  by (simp add: handleRegister_def)

theorem handleRegister_mismatch_witness:
  "handleRegister False
     \<lparr>rf_name = ''Ada'', rf_email = ''ada@x.com'', rf_password = ''abc'', rf_confirmPassword = ''xyz''\<rparr>
     None
     (\<lparr>modal_error = None, modal_isLoading = False, toasts = [], onAuthSuccess_calls = 0,
       onClose_calls = 0\<rparr>, initial_world (map_of []) [])
   = (\<lparr>modal_error = Some ''Passwords don't match!'', modal_isLoading = False, toasts = [],
       onAuthSuccess_calls = 0, onClose_calls = 0\<rparr>, initial_world (map_of []) []) \<and>
   handleRegister True
     \<lparr>rf_name = ''Ada'', rf_email = ''ada@x.com'', rf_password = ''abc'', rf_confirmPassword = ''xyz''\<rparr>
     None
     (\<lparr>modal_error = None, modal_isLoading = False, toasts = [], onAuthSuccess_calls = 0,
       onClose_calls = 0\<rparr>, initial_world (map_of []) [])
   = (\<lparr>modal_error = Some ''Passwords don't match!'', modal_isLoading = False, toasts = [],
       onAuthSuccess_calls = 0, onClose_calls = 0\<rparr>, initial_world (map_of []) [])"
  using handleRegister_mismatch
      [of "\<lparr>rf_name = ''Ada'', rf_email = ''ada@x.com'', rf_password = ''abc'', rf_confirmPassword = ''xyz''\<rparr>"
          False None
          "\<lparr>modal_error = None, modal_isLoading = False, toasts = [], onAuthSuccess_calls = 0,
            onClose_calls = 0\<rparr>" "initial_world (map_of []) []"]
    handleRegister_mismatch
      [of "\<lparr>rf_name = ''Ada'', rf_email = ''ada@x.com'', rf_password = ''abc'', rf_confirmPassword = ''xyz''\<rparr>"
          True None
          "\<lparr>modal_error = None, modal_isLoading = False, toasts = [], onAuthSuccess_calls = 0,
            onClose_calls = 0\<rparr>" "initial_world (map_of []) []"]
  by simp

section \<open>Which identities are present\<close>

lemma perform_configured: "\<exists>pc. snd (perform True c error w) = call_provider pc w"
  by (cases c) (auto simp add: login_def register_def loginWithOAuth_def logout_def)

lemma mount_demo_user: "user (mount False P w) = user w"
  by (simp add: mount_def split: option.splits parse_result.splits)

lemma mount_configured_demoUser: "demoUser (mount True P w) = demoUser w"
  by (simp add: mount_def call_provider_def)

lemma step_demo_user: "user (step False P ev w) = user w"
  by (cases ev) (simp_all add: mount_demo_user perform_demo demoLogin_def store_demo_def)

lemma step_configured_demoUser:
  "\<not> is_demoLogin ev \<Longrightarrow> demoUser (step True P ev w) = demoUser w"
proof (cases ev)
  case (Call c error)
  obtain pc where "snd (perform True c error w) = call_provider pc w"
    using perform_configured by blast
  with Call show ?thesis by (simp add: call_provider_def)
qed (simp_all add: mount_configured_demoUser getSession_then_def getSession_catch_def
       onAuthStateChange_def)

text \<open>In demo mode no event sets the provider user.\<close>

lemma run_demo_user: "user (run False P evs w) = user w"
  by (induction evs arbitrary: w) (simp_all add: step_demo_user)

text \<open>In configured mode only \<open>demoLogin\<close> sets the demo user.\<close>

lemma run_configured_demoUser:
  "list_all (\<lambda>ev. \<not> is_demoLogin ev) evs \<Longrightarrow> demoUser (run True P evs w) = demoUser w"
  by (induction evs arbitrary: w) (simp_all add: step_configured_demoUser)

text \<open>
  Hence the two identities exclude each other in every state reached in demo mode, and
  in every state reached in configured mode without a call of \<open>demoLogin\<close>.
\<close>

lemma exclusive_identity:
  "cfg \<longrightarrow> list_all (\<lambda>ev. \<not> is_demoLogin ev) evs \<Longrightarrow>
   \<not> (non_null (user (run cfg P evs (initial_world store origin))) \<and>
      non_null (demoUser (run cfg P evs (initial_world store origin))))"
  by (cases cfg) (simp_all add: run_demo_user run_configured_demoUser initial_world_def)

text \<open>
  Claim C2 (at most one of the provider identity and the demo identity is non-null in
  every reachable state) does not hold of the code: \<open>demoLogin\<close> writes the demo slot
  without testing \<^verbatim>\<open>isSupabaseConfigured\<close>, as the four other operations do. In
  configured mode, after the mount, a session-change notification carrying a session
  and a call of \<open>demoLogin\<close>, both identities are non-null.
\<close>

theorem demoLogin_breaks_exclusivity:
  "non_null (user (run True P [Mount, AuthStateChange (Some s), DemoLogin name]
                     (initial_world store origin))) \<and>
   non_null (demoUser (run True P [Mount, AuthStateChange (Some s), DemoLogin name]
                     (initial_world store origin)))"
  by (simp add: mount_def call_provider_def onAuthStateChange_def user_of_def demoLogin_def
        store_demo_def)

section \<open>Logout\<close>

text \<open>
  Claim C6, as stated: after any successful \<open>logout\<close>, \<open>isLoggedIn\<close> is false and the
  persisted demo record is absent. It fails in configured mode: with a provider user
  present and a record left in storage, \<open>logout\<close> succeeds when the provider's sign-out
  reports no error, and afterwards \<open>isLoggedIn\<close> still holds and the record is still
  stored.
\<close>

theorem logout_configured_counterexample:
  "fst (logout True None
         (onAuthStateChange
            (Some \<lparr>access_token = ''t'',
                   session_user = \<lparr>user_id = ''u1'', user_email = Some ''grace@x.com'',
                                   user_metadata = None\<rparr>\<rparr>)
            (initial_world
               (map_of [(''demo_user'', JSON_stringify \<lparr>du_name = ''ada'', du_email = ''ada@x.com''\<rparr>)])
               []))) = Inr () \<and>
   isLoggedIn (snd (logout True None
         (onAuthStateChange
            (Some \<lparr>access_token = ''t'',
                   session_user = \<lparr>user_id = ''u1'', user_email = Some ''grace@x.com'',
                                   user_metadata = None\<rparr>\<rparr>)
            (initial_world
               (map_of [(''demo_user'', JSON_stringify \<lparr>du_name = ''ada'', du_email = ''ada@x.com''\<rparr>)])
               [])))) \<and>
   localStorage (snd (logout True None
         (onAuthStateChange
            (Some \<lparr>access_token = ''t'',
                   session_user = \<lparr>user_id = ''u1'', user_email = Some ''grace@x.com'',
                                   user_metadata = None\<rparr>\<rparr>)
            (initial_world
               (map_of [(''demo_user'', JSON_stringify \<lparr>du_name = ''ada'', du_email = ''ada@x.com''\<rparr>)])
               [])))) ''demo_user''
     = Some (JSON_stringify \<lparr>du_name = ''ada'', du_email = ''ada@x.com''\<rparr>)"
  by (simp add: logout_def call_provider_def onAuthStateChange_def user_of_def initial_world_def
        isLoggedIn_def)

text \<open>
  Claim C6, amended: in every state reached in demo mode, \<open>logout\<close> succeeds, and
  after it \<open>isLoggedIn\<close> is false and no demo record is stored. In configured mode
  \<open>logout\<close> only calls the provider's sign-out, leaving the session state and the
  storage as they were; the provider user and the session become null when the
  session-change notification with a null session is processed.
\<close>

theorem logout_effect:
  "fst (logout False error (run False P evs (initial_world store origin))) = Inr () \<and>
   \<not> isLoggedIn (snd (logout False error (run False P evs (initial_world store origin)))) \<and>
   localStorage (snd (logout False error (run False P evs (initial_world store origin))))
     ''demo_user'' = None \<and>
   snd (logout True error w) = w\<lparr>provider_calls := provider_calls w @ [SignOut]\<rparr> \<and>
   user (onAuthStateChange None w) = None \<and>
   session (onAuthStateChange None w) = None"
proof -
  have "user (run False P evs (initial_world store origin)) = None"
    by (simp add: run_demo_user initial_world_def)
  then show ?thesis
    by (simp add: logout_def isLoggedIn_def call_provider_def onAuthStateChange_def user_of_def)
qed

section \<open>The CLI panel\<close>

lemma length_sampleResponses: "length sampleResponses = 5"
  by (simp add: sampleResponses_def)

text \<open>
  Rounding to the nearest double is monotone and leaves 0 as it is, and the double
  nearest to \<open>5 - 5 / 2 ^ 53\<close> is \<open>5 - 1 / 2 ^ 50\<close>. With these three facts the
  rounded product is at least 0 and less than 5 for every double below 1.
\<close>

lemma random_index:
  assumes "mono fl" and "fl 0 = 0" and "fl (5 - 5 / 2 ^ 53) < 5"
    and "0 \<le> r" and "r \<le> 1 - 1 / 2 ^ 53"
  shows "nat \<lfloor>fl (r * real (length sampleResponses))\<rfloor> < length sampleResponses"
proof -
  from assms(5) have "r * 5 \<le> 5 - 5 / 2 ^ 53" by simp
  with assms(1) have "fl (r * 5) \<le> fl (5 - 5 / 2 ^ 53)" by (rule monoD)
  with assms(3) have "fl (r * 5) < 5" by simp
  then have upper: "\<lfloor>fl (r * 5)\<rfloor> < 5" by (simp add: floor_less_iff)
  from assms(4) have "0 \<le> r * 5" by simp
  with assms(1) have "fl 0 \<le> fl (r * 5)" by (rule monoD)
  with assms(2) have "0 \<le> \<lfloor>fl (r * 5)\<rfloor>" by simp
  with upper have "nat \<lfloor>fl (r * 5)\<rfloor> < 5" by linarith
  then show ?thesis by (simp add: length_sampleResponses)
qed

lemma exact_arithmetic:
  "mono (id :: real \<Rightarrow> real)" "(id :: real \<Rightarrow> real) 0 = 0"
  "(id :: real \<Rightarrow> real) (5 - 5 / 2 ^ 53) < 5" "(1 / 2 :: real) \<le> 1 - 1 / 2 ^ 53"
  by (simp_all add: mono_def)

text \<open>\<open>trim\<close> leaves nothing exactly of the strings that are white space throughout.\<close>

lemma trim_empty_iff: "trim s = [] \<longleftrightarrow> list_all js_whitespace s"
proof
  assume "trim s = []"
  then have all: "\<forall>u \<in> set (dropWhile js_whitespace s). js_whitespace u"
    by (simp add: trim_def dropWhile_eq_Nil_conv)
  have "dropWhile js_whitespace s = []"
  proof (rule ccontr)
    assume ne: "dropWhile js_whitespace s \<noteq> []"
    then have "\<not> js_whitespace (hd (dropWhile js_whitespace s))"
      by (rule hd_dropWhile)
    moreover from ne have "hd (dropWhile js_whitespace s) \<in> set (dropWhile js_whitespace s)"
      by simp
    ultimately show False using all by blast
  qed
  then show "list_all js_whitespace s"
    by (simp add: dropWhile_eq_Nil_conv list_all_iff)
next
  assume "list_all js_whitespace s"
  then have "dropWhile js_whitespace s = []"
    by (simp add: dropWhile_eq_Nil_conv list_all_iff)
  then show "trim s = []" by (simp only: trim_def rev.simps dropWhile.simps)
qed

lemma not_blank_ls: "\<not> list_all js_whitespace (code_units ''ls -la'')"
  by (simp add: code_units_def js_whitespace_def)

lemma blank_unicode: "list_all js_whitespace [0x20, 0xA0, 0x2003, 0xFEFF]"
  by (simp add: js_whitespace_def)

text \<open>
  Claim C9: a submission whose input is not blank (not white space throughout, in the
  sense of \<^verbatim>\<open>trim()\<close>), made while no response is pending, appends the user's message
  with the input as typed, marks the panel as typing and sets one timer, with the
  delay computed from a random draw; a further submission while the response is pending
  changes nothing; when the timer fires, exactly one agent message is appended, whose
  content is one of the five sample responses, and the panel stops typing. Nothing else
  of the state changes: no command is run or parsed. A submission of empty or blank
  input, or while a response is pending, leaves the state as it is. The rounding of
  doubles is any monotone function that leaves 0 as it is and takes
  \<open>5 - 5 / 2 ^ 53\<close> below 5, and the random draw for the index is a number from 0
  to \<open>1 - 1 / 2 ^ 53\<close>, the largest double below 1.
\<close>

theorem panel_submit:
  "(\<not> list_all js_whitespace (panel_input s) \<and> \<not> isTyping s \<and>
    mono fl \<and> fl 0 = 0 \<and> fl (5 - 5 / 2 ^ 53) < 5 \<and> 0 \<le> r' \<and> r' \<le> 1 - 1 / 2 ^ 53 \<longrightarrow>
      messages (handleSubmit fl r s) =
        messages s @ [\<lparr>message_type = user_message, content = panel_input s\<rparr>] \<and>
      isTyping (handleSubmit fl r s) \<and>
      timers (handleSubmit fl r s) = timers s @ [fl (1000 + fl (r * 1000))] \<and>
      handleSubmit fl r'' (handleSubmit fl r s) = handleSubmit fl r s \<and>
      (\<exists>c. c \<in> set sampleResponses \<and>
           messages (timer_callback fl r' (handleSubmit fl r s)) =
             messages s @ [\<lparr>message_type = user_message, content = panel_input s\<rparr>,
                           \<lparr>message_type = agent_message, content = code_units c\<rparr>]) \<and>
      \<not> isTyping (timer_callback fl r' (handleSubmit fl r s))) \<and>
   (list_all js_whitespace (panel_input s) \<or> isTyping s \<longrightarrow> handleSubmit fl r s = s) \<and>
   length sampleResponses = 5"
proof (intro conjI impI)
  assume a: "\<not> list_all js_whitespace (panel_input s) \<and> \<not> isTyping s \<and>
    mono fl \<and> fl 0 = 0 \<and> fl (5 - 5 / 2 ^ 53) < 5 \<and> 0 \<le> r' \<and> r' \<le> 1 - 1 / 2 ^ 53"
  then have t: "trim (panel_input s) \<noteq> []" by (simp add: trim_empty_iff)
  from a t show "messages (handleSubmit fl r s) =
        messages s @ [\<lparr>message_type = user_message, content = panel_input s\<rparr>]"
    by (simp add: handleSubmit_def)
  from a t show "isTyping (handleSubmit fl r s)" by (simp add: handleSubmit_def)
  from a t show "timers (handleSubmit fl r s) = timers s @ [fl (1000 + fl (r * 1000))]"
    by (simp add: handleSubmit_def)
  from a t show "handleSubmit fl r'' (handleSubmit fl r s) = handleSubmit fl r s"
    by (simp add: handleSubmit_def)
  from a have "nat \<lfloor>fl (r' * real (length sampleResponses))\<rfloor> < length sampleResponses"
    by (intro random_index) simp_all
  then have "sampleResponses ! nat \<lfloor>fl (r' * real (length sampleResponses))\<rfloor>
      \<in> set sampleResponses"
    by (rule nth_mem)
  with a t show "\<exists>c. c \<in> set sampleResponses \<and>
           messages (timer_callback fl r' (handleSubmit fl r s)) =
             messages s @ [\<lparr>message_type = user_message, content = panel_input s\<rparr>,
                           \<lparr>message_type = agent_message, content = code_units c\<rparr>]"
    by (intro exI [of _ "sampleResponses ! nat \<lfloor>fl (r' * real (length sampleResponses))\<rfloor>"])
      (simp add: handleSubmit_def timer_callback_def)
  show "\<not> isTyping (timer_callback fl r' (handleSubmit fl r s))"
    by (simp add: timer_callback_def)
next
  assume "list_all js_whitespace (panel_input s) \<or> isTyping s"
  then have "trim (panel_input s) = [] \<or> isTyping s" by (simp add: trim_empty_iff)
  then show "handleSubmit fl r s = s" by (auto simp add: handleSubmit_def)
next
  show "length sampleResponses = 5" by (rule length_sampleResponses)
qed

theorem panel_submit_witness:
  "messages (timer_callback id (1/2)
      (handleSubmit id (1/2) (initial_panel\<lparr>panel_input := code_units ''ls -la''\<rparr>))) =
     initialMessages @
       [\<lparr>message_type = user_message, content = code_units ''ls -la''\<rparr>,
        \<lparr>message_type = agent_message,
         content = code_units ''I've identified the issue. Let me fix that for you.''\<rparr>] \<and>
   timers (handleSubmit id (1/2) (initial_panel\<lparr>panel_input := code_units ''ls -la''\<rparr>)) = [1500] \<and>
   handleSubmit id (1/2) (initial_panel\<lparr>panel_input := [0x20, 0xA0, 0x2003, 0xFEFF]\<rparr>) =
     initial_panel\<lparr>panel_input := [0x20, 0xA0, 0x2003, 0xFEFF]\<rparr>"
  using panel_submit
      [of "initial_panel\<lparr>panel_input := code_units ''ls -la''\<rparr>" id "1/2" "1/2" "1/2"]
    panel_submit
      [of "initial_panel\<lparr>panel_input := [0x20, 0xA0, 0x2003, 0xFEFF]\<rparr>" id "1/2" "1/2" "1/2"]
    not_blank_ls blank_unicode exact_arithmetic
  by (simp add: initial_panel_def timer_callback_def sampleResponses_def)

end
